theory Spec2Isabelle
  imports Main "HOL-Library.Word"
begin

section \<open>Data model\<close>

text \<open>
  The protobuf messages and SCM option structs that \<^verbatim>\<open>web/courses.go\<close> reads and
  builds. Only the fields the code touches are kept; every field a struct literal leaves
  out holds Go's zero value. Identifiers are \<^verbatim>\<open>uint64\<close>; no arithmetic is done on
  them, they are only compared and passed on.
\<close>

type_synonym uint64 = "64 word"

text \<open>
  \<^verbatim>\<open>pb.Enrollment_UserStatus\<close> is an open \<^verbatim>\<open>int32\<close> enumeration: besides the
  five named constants a request can carry any other number, which
  \<open>Enrollment_UNNAMED\<close> stands for. \<open>Enrollment_NONE\<close> is the zero value.
\<close>

datatype Enrollment_UserStatus =
    Enrollment_NONE
  | Enrollment_PENDING
  | Enrollment_REJECTED
  | Enrollment_STUDENT
  | Enrollment_TEACHER
  | Enrollment_UNNAMED int

datatype Repository_Type =
    Repository_NONE
  | Repository_COURSEINFO
  | Repository_USER
  | Repository_GROUP
  | Repository_UNNAMED int

record User =
  User_ID :: uint64
  User_Login :: string

record Course =
  Course_ID :: uint64
  Course_OrganizationID :: uint64

text \<open>
  \<open>Enrollment_User\<close> and \<open>Enrollment_Course\<close> are pointers in Go: \<open>None\<close> is the
  nil pointer of an association that was not loaded.
\<close>

record Enrollment =
  Enrollment_UserID :: uint64
  Enrollment_CourseID :: uint64
  Enrollment_GroupID :: uint64
  Enrollment_Status :: Enrollment_UserStatus
  Enrollment_User :: "User option"
  Enrollment_Course :: "Course option"

record Repository =
  Repository_OrganizationID :: uint64
  Repository_RepositoryID :: uint64
  Repository_UserID :: uint64
  Repository_HTMLURL :: string
  Repository_RepoType :: Repository_Type


record EnrollmentsRequest =
  EnrollmentsRequest_CourseID :: uint64
  EnrollmentsRequest_FilterOutGroupMembers :: bool
  EnrollmentsRequest_States :: "Enrollment_UserStatus list"

record Organization =
  Organization_ID :: uint64
  Organization_Path :: string

record scm_Repository =
  scm_Repository_ID :: uint64
  scm_Repository_WebURL :: string

record scm_Team =
  scm_Team_ID :: uint64
  scm_Team_Name :: string

record TeamMembershipOptions =
  TeamMembershipOptions_Organization :: Organization
  TeamMembershipOptions_TeamID :: int
  TeamMembershipOptions_TeamSlug :: string
  TeamMembershipOptions_Username :: string
  TeamMembershipOptions_Role :: string

record OrgMembership =
  OrgMembership_Organization :: Organization
  OrgMembership_Username :: string
  OrgMembership_Role :: string

subsection \<open>Errors and outcomes\<close>

text \<open>
  A Go \<^verbatim>\<open>error\<close> value. \<open>fmt_Errorf\<close> is an error built by \<^verbatim>\<open>fmt.Errorf\<close> in
  package \<^verbatim>\<open>web\<close>, with its format string and its arguments; \<open>StoreError\<close> is
  whatever the database layer returned; \<open>ProviderError\<close> is the error value of a
  provider's client library (for GitLab an error response with its HTTP status and
  message). No function of the sources builds any other kind of error.
\<close>

datatype fmt_arg = Arg_int int | Arg_Repository Repository

datatype error =
    fmt_Errorf string "fmt_arg list"
  | StoreError string
  | ProviderError nat string

fun is_ProviderError :: "error \<Rightarrow> bool" where
  "is_ProviderError (ProviderError _ _) = True"
| "is_ProviderError _ = False"

text \<open>
  An operand of a logging call: a string, or the text \<^verbatim>\<open>err.Error()\<close> of an error
  (kept as the error it is the text of).
\<close>

datatype log_arg = Log_string string | Log_Error error

text \<open>
  A Go call either returns or panics (a nil pointer dereference). A function of result
  type \<^verbatim>\<open>error\<close> returns \<open>error option\<close>, \<open>None\<close> being \<^verbatim>\<open>nil\<close>; a function of
  result type \<^verbatim>\<open>(T, error)\<close> returns \<open>error + T\<close>.
\<close>

datatype 'a go = Panic | Return 'a

subsection \<open>Generated getters\<close>

text \<open>
  The protobuf getters are nil-safe: on a nil receiver they return the zero value of
  the field.
\<close>

definition Course_GetOrganizationID :: "Course option \<Rightarrow> uint64" where
  "Course_GetOrganizationID c = (case c of None \<Rightarrow> 0 | Some x \<Rightarrow> Course_OrganizationID x)"

definition User_GetLogin :: "User option \<Rightarrow> string" where
  "User_GetLogin u = (case u of None \<Rightarrow> [] | Some x \<Rightarrow> User_Login x)"


definition Enrollment_GetUserID :: "Enrollment option \<Rightarrow> uint64" where
  "Enrollment_GetUserID e = (case e of None \<Rightarrow> 0 | Some x \<Rightarrow> Enrollment_UserID x)"

definition Enrollment_GetCourseID :: "Enrollment option \<Rightarrow> uint64" where
  "Enrollment_GetCourseID e = (case e of None \<Rightarrow> 0 | Some x \<Rightarrow> Enrollment_CourseID x)"

definition Enrollment_GetStatus :: "Enrollment option \<Rightarrow> Enrollment_UserStatus" where
  "Enrollment_GetStatus e = (case e of None \<Rightarrow> Enrollment_NONE | Some x \<Rightarrow> Enrollment_Status x)"



section \<open>Collaborators\<close>

text \<open>
  The database, the SCM and the loggers are interfaces whose implementations are not
  part of the sources. Each method is a function on a state \<open>'s\<close> of the outside world
  that returns its result and the new state.
\<close>

record 's Database =
  GetCourse :: "uint64 \<Rightarrow> 's \<Rightarrow> (error + Course) \<times> 's"
  GetEnrollmentByCourseAndUser :: "uint64 \<Rightarrow> uint64 \<Rightarrow> 's \<Rightarrow> (error + Enrollment) \<times> 's"
  GetEnrollmentsByCourse ::
    "uint64 \<Rightarrow> Enrollment_UserStatus list \<Rightarrow> 's \<Rightarrow> (error + Enrollment list) \<times> 's"
  GetRepositories :: "Repository \<Rightarrow> 's \<Rightarrow> (error + Repository list) \<times> 's"
  CreateEnrollment :: "Enrollment \<Rightarrow> 's \<Rightarrow> error option \<times> 's"
  RejectEnrollment :: "uint64 \<Rightarrow> uint64 \<Rightarrow> 's \<Rightarrow> error option \<times> 's"
  SetPendingEnrollment :: "uint64 \<Rightarrow> uint64 \<Rightarrow> 's \<Rightarrow> error option \<times> 's"
  EnrollStudent :: "uint64 \<Rightarrow> uint64 \<Rightarrow> 's \<Rightarrow> error option \<times> 's"
  EnrollTeacher :: "uint64 \<Rightarrow> uint64 \<Rightarrow> 's \<Rightarrow> error option \<times> 's"
  CreateRepository :: "Repository \<Rightarrow> 's \<Rightarrow> error option \<times> 's"

record ('c, 's) SCM =
  GetOrganization :: "'c \<Rightarrow> uint64 \<Rightarrow> 's \<Rightarrow> (error + Organization) \<times> 's"
  AddTeamMember :: "'c \<Rightarrow> TeamMembershipOptions \<Rightarrow> 's \<Rightarrow> error option \<times> 's"
  RemoveTeamMember :: "'c \<Rightarrow> TeamMembershipOptions \<Rightarrow> 's \<Rightarrow> error option \<times> 's"
  UpdateOrgMembership :: "'c \<Rightarrow> OrgMembership \<Rightarrow> 's \<Rightarrow> error option \<times> 's"

text \<open>
  Functions of the repository that \<^verbatim>\<open>courses.go\<close> calls and that are defined in
  files outside the sources, and the standard logger. They are parameters of the model:
  \<^item> \<open>createRepoAndTeam\<close>, the provisioner: by the contract the specification gives
    it, it either reports a failure or yields the repository and the team. It works
    through the SCM of the surrounding call, which is part of the outside world here and
    not an argument;
  \<^item> \<open>StudentRepoName\<close>, the repository name derived from a login;
  \<^item> \<open>log_Println\<close>, the package-level \<^verbatim>\<open>log.Println\<close>, with its operands.
\<close>

record ('c, 's) Package =
  createRepoAndTeam ::
    "'c \<Rightarrow> Course option \<Rightarrow> string \<Rightarrow> string \<Rightarrow> string list \<Rightarrow> 's
      \<Rightarrow> (error + scm_Repository \<times> scm_Team) \<times> 's"
  StudentRepoName :: "string \<Rightarrow> string"
  log_Println :: "log_arg list \<Rightarrow> 's \<Rightarrow> 's"

text \<open>
  The service: its database handle and its logger (\<^verbatim>\<open>s.logger.Errorf\<close> with the
  format string and its arguments).
\<close>

record 's AutograderService =
  db :: "'s Database"
  logger_Errorf :: "string \<Rightarrow> log_arg list \<Rightarrow> 's \<Rightarrow> 's"

section \<open>Enrollment transitions\<close>

text \<open>
  \<^verbatim>\<open>updateReposAndTeams\<close>. Reading \<^verbatim>\<open>course.OrganizationID\<close> panics on a nil course.
  The teacher branch returns \<^verbatim>\<open>nil, sc.AddTeamMember(...)\<close>: no repository, and the
  error of the last call.
\<close>

definition updateReposAndTeams ::
  "('c, 's) Package \<Rightarrow> 'c \<Rightarrow> ('c, 's) SCM \<Rightarrow> Course option \<Rightarrow> string
    \<Rightarrow> Enrollment_UserStatus \<Rightarrow> 's \<Rightarrow> (error + scm_Repository option) go \<times> 's" where
  "updateReposAndTeams pkg ctx sc course login state \<sigma> =
    (case course of
       None \<Rightarrow> (Panic, \<sigma>)
     | Some c \<Rightarrow>
        (case GetOrganization sc ctx (Course_OrganizationID c) \<sigma> of
           (Inl err, \<sigma>1) \<Rightarrow> (Return (Inl err), \<sigma>1)
         | (Inr org, \<sigma>1) \<Rightarrow>
            (let teamOpt = \<lparr>TeamMembershipOptions_Organization = org,
                            TeamMembershipOptions_TeamID = 0,
                            TeamMembershipOptions_TeamSlug = ''students'',
                            TeamMembershipOptions_Username = login,
                            TeamMembershipOptions_Role = []\<rparr>
             in case state of
                  Enrollment_STUDENT \<Rightarrow>
                    (case AddTeamMember sc ctx teamOpt \<sigma>1 of
                       (Some err, \<sigma>2) \<Rightarrow> (Return (Inl err), \<sigma>2)
                     | (None, \<sigma>2) \<Rightarrow>
                        (case createRepoAndTeam pkg ctx course
                                (StudentRepoName pkg login) login [login] \<sigma>2 of
                           (Inl err, \<sigma>3) \<Rightarrow> (Return (Inl err), \<sigma>3)
                         | (Inr (repo, team), \<sigma>3) \<Rightarrow> (Return (Inr (Some repo)), \<sigma>3)))
                | Enrollment_TEACHER \<Rightarrow>
                    (let orgUpdate = \<lparr>OrgMembership_Organization = org,
                                      OrgMembership_Username = login,
                                      OrgMembership_Role = ''admin''\<rparr>
                     in case UpdateOrgMembership sc ctx orgUpdate \<sigma>1 of
                          (Some err, \<sigma>2) \<Rightarrow>
                            (Return (Inl err),
                             log_Println pkg
                               [Log_string ''UpdateRepoAndTeam: failed to update org membership: '',
                                Log_Error err] \<sigma>2)
                        | (None, \<sigma>2) \<Rightarrow>
                            (case RemoveTeamMember sc ctx teamOpt \<sigma>2 of
                               (Some err, \<sigma>3) \<Rightarrow>
                                 (Return (Inl err),
                                  log_Println pkg
                                    [Log_string ''UpdateRepoAndTeam: failed to remove team member: '',
                                     Log_Error err] \<sigma>3)
                             | (None, \<sigma>3) \<Rightarrow>
                                 (case AddTeamMember sc ctx
                                         (teamOpt\<lparr>TeamMembershipOptions_TeamSlug := ''teachers'',
                                                  TeamMembershipOptions_Role := ''maintainer''\<rparr>)
                                         \<sigma>3 of
                                    (Some err, \<sigma>4) \<Rightarrow> (Return (Inl err), \<sigma>4)
                                  | (None, \<sigma>4) \<Rightarrow> (Return (Inr None), \<sigma>4))))
                | _ \<Rightarrow> (Return (Inl (fmt_Errorf ''unknown enrollment'' [])), \<sigma>1))))"

text \<open>
  \<^verbatim>\<open>updateEnrollment\<close>. The request is a pointer: reading \<^verbatim>\<open>request.CourseID\<close> panics
  on nil. The direct field reads \<^verbatim>\<open>student.Login\<close>, \<^verbatim>\<open>teacher.Login\<close>,
  \<^verbatim>\<open>teacher.ID\<close>, \<^verbatim>\<open>course.ID\<close> and \<^verbatim>\<open>repo.ID\<close> panic on nil as well; the getters
  do not.
\<close>

definition updateEnrollment ::
  "('c, 's) Package \<Rightarrow> 's AutograderService \<Rightarrow> 'c \<Rightarrow> ('c, 's) SCM \<Rightarrow> Enrollment option
    \<Rightarrow> 's \<Rightarrow> error option go \<times> 's" where
  "updateEnrollment pkg s ctx sc request \<sigma> =
    (case request of
       None \<Rightarrow> (Panic, \<sigma>)
     | Some req \<Rightarrow>
        (case GetEnrollmentByCourseAndUser (db s)
                (Enrollment_CourseID req) (Enrollment_UserID req) \<sigma> of
           (Inl err, \<sigma>1) \<Rightarrow> (Return (Some err), \<sigma>1)
         | (Inr enrollment, \<sigma>1) \<Rightarrow>
            (case Enrollment_Status req of
               Enrollment_REJECTED \<Rightarrow>
                 (case RejectEnrollment (db s)
                         (Enrollment_UserID req) (Enrollment_CourseID req) \<sigma>1 of
                    (r, \<sigma>2) \<Rightarrow> (Return r, \<sigma>2))
             | Enrollment_PENDING \<Rightarrow>
                 (case SetPendingEnrollment (db s)
                         (Enrollment_UserID req) (Enrollment_CourseID req) \<sigma>1 of
                    (r, \<sigma>2) \<Rightarrow> (Return r, \<sigma>2))
             | Enrollment_STUDENT \<Rightarrow>
                 (let course = Enrollment_Course enrollment;
                      student = Enrollment_User enrollment;
                      userRepoQuery = \<lparr>Repository_OrganizationID = Course_GetOrganizationID course,
                                        Repository_RepositoryID = 0,
                                        Repository_UserID = Enrollment_GetUserID request,
                                        Repository_HTMLURL = [],
                                        Repository_RepoType = Repository_USER\<rparr>
                  in case GetRepositories (db s) userRepoQuery \<sigma>1 of
                       (Inl err, \<sigma>2) \<Rightarrow> (Return (Some err), \<sigma>2)
                     | (Inr repos, \<sigma>2) \<Rightarrow>
                        if length repos > 0 then
                          (case EnrollStudent (db s)
                                  (Enrollment_UserID req) (Enrollment_CourseID req) \<sigma>2 of
                             (r, \<sigma>3) \<Rightarrow> (Return r, \<sigma>3))
                        else
                          (case updateReposAndTeams pkg ctx sc course (User_GetLogin student)
                                  (Enrollment_GetStatus request) \<sigma>2 of
                             (Panic, \<sigma>3) \<Rightarrow> (Panic, \<sigma>3)
                           | (Return (Inl err), \<sigma>3) \<Rightarrow>
                               (case student of
                                  None \<Rightarrow> (Panic, \<sigma>3)
                                | Some st \<Rightarrow>
                                    (Return (Some err),
                                     logger_Errorf s
                                       ''UpdateEnrollment: failed to update repos or team membersip for student %s: %s''
                                       [Log_string (User_Login st), Log_Error err] \<sigma>3))
                           | (Return (Inr None), \<sigma>3) \<Rightarrow> (Panic, \<sigma>3)
                           | (Return (Inr (Some repo)), \<sigma>3) \<Rightarrow>
                               (let dbRepo = \<lparr>Repository_OrganizationID =
                                                Course_GetOrganizationID course,
                                              Repository_RepositoryID = scm_Repository_ID repo,
                                              Repository_UserID = Enrollment_GetUserID request,
                                              Repository_HTMLURL = scm_Repository_WebURL repo,
                                              Repository_RepoType = Repository_USER\<rparr>
                                in case CreateRepository (db s) dbRepo \<sigma>3 of
                                     (Some err, \<sigma>4) \<Rightarrow> (Return (Some err), \<sigma>4)
                                   | (None, \<sigma>4) \<Rightarrow>
                                       (case EnrollStudent (db s) (Enrollment_UserID req)
                                               (Enrollment_CourseID req) \<sigma>4 of
                                          (r, \<sigma>5) \<Rightarrow> (Return r, \<sigma>5)))))
             | Enrollment_TEACHER \<Rightarrow>
                 (let course = Enrollment_Course enrollment;
                      teacher = Enrollment_User enrollment
                  in case updateReposAndTeams pkg ctx sc course (User_GetLogin teacher)
                            (Enrollment_GetStatus request) \<sigma>1 of
                       (Panic, \<sigma>2) \<Rightarrow> (Panic, \<sigma>2)
                     | (Return (Inl err), \<sigma>2) \<Rightarrow>
                         (case teacher of
                            None \<Rightarrow> (Panic, \<sigma>2)
                          | Some t \<Rightarrow>
                              (Return (Some err),
                               logger_Errorf s
                                 ''UpdateEnrollment: failed to update team membersip for teacher %s: %s''
                                 [Log_string (User_Login t), Log_Error err] \<sigma>2))
                     | (Return (Inr _), \<sigma>2) \<Rightarrow>
                         (case (teacher, course) of
                            (Some t, Some c) \<Rightarrow>
                              (case EnrollTeacher (db s) (User_ID t) (Course_ID c) \<sigma>2 of
                                 (r, \<sigma>3) \<Rightarrow> (Return r, \<sigma>3))
                          | _ \<Rightarrow> (Panic, \<sigma>2)))
             | _ \<Rightarrow> (Return (Some (fmt_Errorf ''unknown enrollment'' [])), \<sigma>1))))"

section \<open>Enrollment requests and queries\<close>

text \<open>
  \<^verbatim>\<open>createEnrollment\<close> builds the record from the request's getters and the constant
  \<^verbatim>\<open>pb.Enrollment_PENDING\<close>; every other field keeps its zero value.
\<close>

definition createEnrollment ::
  "'s AutograderService \<Rightarrow> Enrollment option \<Rightarrow> 's \<Rightarrow> error option \<times> 's" where
  "createEnrollment s request \<sigma> =
    (let enrollment = \<lparr>Enrollment_UserID = Enrollment_GetUserID request,
                        Enrollment_CourseID = Enrollment_GetCourseID request,
                        Enrollment_GroupID = 0,
                        Enrollment_Status = Enrollment_PENDING,
                        Enrollment_User = None,
                        Enrollment_Course = None\<rparr>
     in CreateEnrollment (db s) enrollment \<sigma>)"

text \<open>
  The \<^verbatim>\<open>pb.Enrollments\<close> and \<^verbatim>\<open>pb.URLResponse\<close> messages wrap a list and a string.
\<close>

datatype Enrollments = Enrollments "Enrollment list"


text \<open>
  The loop of \<^verbatim>\<open>getEnrollmentsByCourse\<close> over the store's list, with the slice
  \<^verbatim>\<open>enrollmentsWithoutGroups\<close> it appends to.
\<close>

fun withoutGroups_loop :: "Enrollment list \<Rightarrow> Enrollment list \<Rightarrow> Enrollment list" where
  "withoutGroups_loop [] enrollmentsWithoutGroups = enrollmentsWithoutGroups"
| "withoutGroups_loop (enrollment # rest) enrollmentsWithoutGroups =
     withoutGroups_loop rest
       (if Enrollment_GroupID enrollment = 0 then enrollmentsWithoutGroups @ [enrollment]
        else enrollmentsWithoutGroups)"

definition getEnrollmentsByCourse ::
  "'s AutograderService \<Rightarrow> EnrollmentsRequest option \<Rightarrow> 's
    \<Rightarrow> (error + Enrollments) go \<times> 's" where
  "getEnrollmentsByCourse s request \<sigma> =
    (case request of
       None \<Rightarrow> (Panic, \<sigma>)
     | Some req \<Rightarrow>
        (case GetEnrollmentsByCourse (db s) (EnrollmentsRequest_CourseID req)
                (EnrollmentsRequest_States req) \<sigma> of
           (Inl err, \<sigma>1) \<Rightarrow> (Return (Inl err), \<sigma>1)
         | (Inr enrollments, \<sigma>1) \<Rightarrow>
            (let enrollments =
                   (if EnrollmentsRequest_FilterOutGroupMembers req
                    then withoutGroups_loop enrollments []
                    else enrollments)
             in (Return (Inr (Enrollments enrollments)), \<sigma>1))))"


section \<open>The GitLab adapter\<close>

text \<open>
  \<^verbatim>\<open>GitlabSCM\<close> holds the client of the GitLab library; the three methods of its group
  service that the adapter calls are the fields. \<^verbatim>\<open>group.ID\<close> and the directory
  identifier are Go \<^verbatim>\<open>int\<close>s that are copied, never computed with.
\<close>

record Group =
  Group_ID :: int
  Group_Name :: string

record Directory =
  Directory_ID :: int
  Directory_Name :: string

record CreateDirectoryOptions =
  CreateDirectoryOptions_Name :: string

datatype VisibilityLevelValue = PrivateVisibility | PublicVisibility

record CreateGroupOptions =
  CreateGroupOptions_Name :: "string option"
  CreateGroupOptions_Path :: "string option"
  CreateGroupOptions_VisibilityLevel :: "VisibilityLevelValue option"

record ('c, 's) GitlabSCM =
  Groups_ListGroups :: "'c \<Rightarrow> 's \<Rightarrow> (error + Group list) \<times> 's"
  Groups_CreateGroup :: "CreateGroupOptions \<Rightarrow> 'c \<Rightarrow> 's \<Rightarrow> (error + Group) \<times> 's"
  Groups_GetGroup :: "int \<Rightarrow> 'c \<Rightarrow> 's \<Rightarrow> (error + Group) \<times> 's"

definition getVisibilityLevel :: "bool \<Rightarrow> VisibilityLevelValue option" where
  "getVisibilityLevel private =
     (if private then Some PrivateVisibility else Some PublicVisibility)"

text \<open>
  The literal \<^verbatim>\<open>&Directory{ID: group.ID, Name: group.Name}\<close> that all three methods build.
\<close>

definition Directory_of :: "Group \<Rightarrow> Directory" where
  "Directory_of g = \<lparr>Directory_ID = Group_ID g, Directory_Name = Group_Name g\<rparr>"

fun ListDirectories_loop :: "Group list \<Rightarrow> Directory list \<Rightarrow> Directory list" where
  "ListDirectories_loop [] directories = directories"
| "ListDirectories_loop (g # rest) directories =
     ListDirectories_loop rest (directories @ [Directory_of g])"

definition ListDirectories ::
  "('c, 's) GitlabSCM \<Rightarrow> 'c \<Rightarrow> 's \<Rightarrow> (error + Directory list) go \<times> 's" where
  "ListDirectories s ctx \<sigma> =
    (case Groups_ListGroups s ctx \<sigma> of
       (Inl err, \<sigma>1) \<Rightarrow> (Return (Inl err), \<sigma>1)
     | (Inr groups, \<sigma>1) \<Rightarrow> (Return (Inr (ListDirectories_loop groups [])), \<sigma>1))"

text \<open>\<^verbatim>\<open>&opt.Name\<close> panics on a nil \<^verbatim>\<open>opt\<close>.\<close>

definition CreateDirectory ::
  "('c, 's) GitlabSCM \<Rightarrow> 'c \<Rightarrow> CreateDirectoryOptions option \<Rightarrow> 's
    \<Rightarrow> (error + Directory) go \<times> 's" where
  "CreateDirectory s ctx opt \<sigma> =
    (case opt of
       None \<Rightarrow> (Panic, \<sigma>)
     | Some opt \<Rightarrow>
        (case Groups_CreateGroup s
                \<lparr>CreateGroupOptions_Name = Some (CreateDirectoryOptions_Name opt),
                 CreateGroupOptions_Path = Some (CreateDirectoryOptions_Name opt),
                 CreateGroupOptions_VisibilityLevel = getVisibilityLevel False\<rparr> ctx \<sigma> of
           (Inl err, \<sigma>1) \<Rightarrow> (Return (Inl err), \<sigma>1)
         | (Inr g, \<sigma>1) \<Rightarrow> (Return (Inr (Directory_of g)), \<sigma>1)))"

definition GetDirectory ::
  "('c, 's) GitlabSCM \<Rightarrow> 'c \<Rightarrow> int \<Rightarrow> 's \<Rightarrow> (error + Directory) go \<times> 's" where
  "GetDirectory s ctx gid \<sigma> =
    (case Groups_GetGroup s gid ctx \<sigma> of
       (Inl err, \<sigma>1) \<Rightarrow> (Return (Inl err), \<sigma>1)
     | (Inr g, \<sigma>1) \<Rightarrow> (Return (Inr (Directory_of g)), \<sigma>1))"

section \<open>Recording test doubles\<close>

text \<open>
  What a run does to its collaborators is observed through test doubles: each wraps an
  arbitrary implementation and appends the call, with its arguments and its reply, to a
  trace kept beside the state of the outside world.
\<close>

datatype call =
    DB_GetCourse uint64
  | DB_GetEnrollmentByCourseAndUser uint64 uint64
  | DB_GetEnrollmentsByCourse uint64 "Enrollment_UserStatus list"
  | DB_GetRepositories Repository
  | DB_CreateEnrollment Enrollment
  | DB_RejectEnrollment uint64 uint64
  | DB_SetPendingEnrollment uint64 uint64
  | DB_EnrollStudent uint64 uint64
  | DB_EnrollTeacher uint64 uint64
  | DB_CreateRepository Repository
  | SCM_GetOrganization uint64
  | SCM_AddTeamMember TeamMembershipOptions
  | SCM_RemoveTeamMember TeamMembershipOptions
  | SCM_UpdateOrgMembership OrgMembership
  | SCM_createRepoAndTeam "Course option" string string "string list"
  | Logger_Errorf string "log_arg list"
  | Log_Println "log_arg list"

datatype reply =
    Failed error
  | Done
  | Got_Course Course
  | Got_Enrollment Enrollment
  | Got_Enrollments "Enrollment list"
  | Got_Repositories "Repository list"
  | Got_Organization Organization
  | Got_RepoAndTeam scm_Repository scm_Team

type_synonym event = "call \<times> reply"

definition reply_error :: "error option \<Rightarrow> reply" where
  "reply_error r = (case r of None \<Rightarrow> Done | Some e \<Rightarrow> Failed e)"

definition reply_sum :: "('a \<Rightarrow> reply) \<Rightarrow> error + 'a \<Rightarrow> reply" where
  "reply_sum g r = (case r of Inl e \<Rightarrow> Failed e | Inr x \<Rightarrow> g x)"

definition observe ::
  "call \<Rightarrow> ('r \<Rightarrow> reply) \<Rightarrow> ('w \<Rightarrow> 'r \<times> 'w) \<Rightarrow> event list \<times> 'w \<Rightarrow> 'r \<times> event list \<times> 'w" where
  "observe c rep f = (\<lambda>(tr, w). case f w of (r, w') \<Rightarrow> (r, tr @ [(c, rep r)], w'))"

definition observe_log :: "call \<Rightarrow> ('w \<Rightarrow> 'w) \<Rightarrow> event list \<times> 'w \<Rightarrow> event list \<times> 'w" where
  "observe_log c f = (\<lambda>(tr, w). (tr @ [(c, Done)], f w))"

definition recording_Database :: "'w Database \<Rightarrow> (event list \<times> 'w) Database" where
  "recording_Database d =
    \<lparr>GetCourse = (\<lambda>cid. observe (DB_GetCourse cid) (reply_sum Got_Course) (GetCourse d cid)),
     GetEnrollmentByCourseAndUser = (\<lambda>cid uid.
       observe (DB_GetEnrollmentByCourseAndUser cid uid) (reply_sum Got_Enrollment)
         (GetEnrollmentByCourseAndUser d cid uid)),
     GetEnrollmentsByCourse = (\<lambda>cid states.
       observe (DB_GetEnrollmentsByCourse cid states) (reply_sum Got_Enrollments)
         (GetEnrollmentsByCourse d cid states)),
     GetRepositories = (\<lambda>q.
       observe (DB_GetRepositories q) (reply_sum Got_Repositories) (GetRepositories d q)),
     CreateEnrollment = (\<lambda>e.
       observe (DB_CreateEnrollment e) reply_error (CreateEnrollment d e)),
     RejectEnrollment = (\<lambda>uid cid.
       observe (DB_RejectEnrollment uid cid) reply_error (RejectEnrollment d uid cid)),
     SetPendingEnrollment = (\<lambda>uid cid.
       observe (DB_SetPendingEnrollment uid cid) reply_error (SetPendingEnrollment d uid cid)),
     EnrollStudent = (\<lambda>uid cid.
       observe (DB_EnrollStudent uid cid) reply_error (EnrollStudent d uid cid)),
     EnrollTeacher = (\<lambda>uid cid.
       observe (DB_EnrollTeacher uid cid) reply_error (EnrollTeacher d uid cid)),
     CreateRepository = (\<lambda>r.
       observe (DB_CreateRepository r) reply_error (CreateRepository d r))\<rparr>"

definition recording_SCM :: "('c, 'w) SCM \<Rightarrow> ('c, event list \<times> 'w) SCM" where
  "recording_SCM sc =
    \<lparr>GetOrganization = (\<lambda>ctx oid.
       observe (SCM_GetOrganization oid) (reply_sum Got_Organization) (GetOrganization sc ctx oid)),
     AddTeamMember = (\<lambda>ctx opt.
       observe (SCM_AddTeamMember opt) reply_error (AddTeamMember sc ctx opt)),
     RemoveTeamMember = (\<lambda>ctx opt.
       observe (SCM_RemoveTeamMember opt) reply_error (RemoveTeamMember sc ctx opt)),
     UpdateOrgMembership = (\<lambda>ctx m.
       observe (SCM_UpdateOrgMembership m) reply_error (UpdateOrgMembership sc ctx m))\<rparr>"

definition recording_Package :: "('c, 'w) Package \<Rightarrow> ('c, event list \<times> 'w) Package" where
  "recording_Package pkg =
    \<lparr>createRepoAndTeam = (\<lambda>ctx course name login members.
       observe (SCM_createRepoAndTeam course name login members)
         (reply_sum (\<lambda>(repo, team). Got_RepoAndTeam repo team))
         (createRepoAndTeam pkg ctx course name login members)),
     StudentRepoName = StudentRepoName pkg,
     log_Println = (\<lambda>args. observe_log (Log_Println args) (log_Println pkg args))\<rparr>"

definition recording_Service :: "'w AutograderService \<Rightarrow> (event list \<times> 'w) AutograderService" where
  "recording_Service s =
    \<lparr>db = recording_Database (db s),
     logger_Errorf = (\<lambda>format args.
       observe_log (Logger_Errorf format args) (logger_Errorf s format args))\<rparr>"

text \<open>
  A run of \<open>updateEnrollment\<close> against recording doubles, from the empty trace: the
  outcome, the trace of the calls made, and the final state of the outside world.
\<close>

definition recorded_updateEnrollment ::
  "('c, 'w) Package \<Rightarrow> 'w AutograderService \<Rightarrow> 'c \<Rightarrow> ('c, 'w) SCM \<Rightarrow> Enrollment option
    \<Rightarrow> 'w \<Rightarrow> error option go \<times> event list \<times> 'w" where
  "recorded_updateEnrollment pkg s ctx sc request w =
     updateEnrollment (recording_Package pkg) (recording_Service s) ctx (recording_SCM sc)
       request ([], w)"

text \<open>
  The calls that reach the SCM (the four adapter methods and the provisioner, which
  creates the repository and the team), and the calls that write to the store.
\<close>

fun is_scm_call :: "call \<Rightarrow> bool" where
  "is_scm_call (SCM_GetOrganization _) = True"
| "is_scm_call (SCM_AddTeamMember _) = True"
| "is_scm_call (SCM_RemoveTeamMember _) = True"
| "is_scm_call (SCM_UpdateOrgMembership _) = True"
| "is_scm_call (SCM_createRepoAndTeam _ _ _ _) = True"
| "is_scm_call _ = False"

fun is_store_write :: "call \<Rightarrow> bool" where
  "is_store_write (DB_CreateEnrollment _) = True"
| "is_store_write (DB_RejectEnrollment _ _) = True"
| "is_store_write (DB_SetPendingEnrollment _ _) = True"
| "is_store_write (DB_EnrollStudent _ _) = True"
| "is_store_write (DB_EnrollTeacher _ _) = True"
| "is_store_write (DB_CreateRepository _) = True"
| "is_store_write _ = False"

fun is_log :: "call \<Rightarrow> bool" where
  "is_log (Logger_Errorf _ _) = True"
| "is_log (Log_Println _) = True"
| "is_log _ = False"

fun is_failure :: "reply \<Rightarrow> bool" where
  "is_failure (Failed _) = True"
| "is_failure _ = False"

text \<open>
  \<open>only_logs_after_scm_failure\<close>: once a call to the SCM has failed, nothing but
  log entries follows in the trace.
\<close>

fun only_logs_after_scm_failure :: "event list \<Rightarrow> bool" where
  "only_logs_after_scm_failure [] = True"
| "only_logs_after_scm_failure ((c, r) # evs) =
     (if is_scm_call c \<and> is_failure r then list_all (\<lambda>ev. is_log (fst ev)) evs
      else only_logs_after_scm_failure evs)"

text \<open>
  What the events of \<open>updateReposAndTeams\<close> have in common, whatever its outcome: none
  writes to the store, a failed SCM call is followed by log entries only, and its error
  is the error returned.
\<close>

definition scm_steps :: "(error + 'a) go \<Rightarrow> event list \<Rightarrow> bool" where
  "scm_steps out evs \<longleftrightarrow>
     list_all (\<lambda>ev. \<not> is_store_write (fst ev)) evs \<and>
     only_logs_after_scm_failure evs \<and>
     (\<forall>c e. (c, Failed e) \<in> set evs \<and> is_scm_call c \<longrightarrow> out = Return (Inl e))"

text \<open>
  \<open>scm_failure_surfaced\<close>: whenever a call to the SCM failed in a trace, the outcome
  is that very error, no call of the trace wrote to the store, and only log entries
  follow the failed call.
\<close>

definition scm_failure_surfaced :: "error option go \<Rightarrow> event list \<Rightarrow> bool" where
  "scm_failure_surfaced out tr \<longleftrightarrow>
     (\<forall>c e. (c, Failed e) \<in> set tr \<and> is_scm_call c \<longrightarrow>
        out = Return (Some e) \<and> list_all (\<lambda>ev. \<not> is_store_write (fst ev)) tr \<and>
        only_logs_after_scm_failure tr)"

text \<open>The trace without its log entries: the calls to the store and to the SCM.\<close>

definition effects :: "event list \<Rightarrow> event list" where
  "effects tr = filter (\<lambda>ev. \<not> is_log (fst ev)) tr"

section \<open>A small world for concrete runs\<close>

text \<open>
  An in-memory store with one enrollment (user 42 in course 7, whose organization is
  100) and a list of repository records, an SCM that fails at a chosen step, and a
  GitLab client that answers every call with an error response. They are used to run
  the functions above on concrete inputs.
\<close>

datatype mem = Mem (mem_status: Enrollment_UserStatus) (mem_repos: "Repository list")

definition demo_course :: Course where
  "demo_course = \<lparr>Course_ID = 7, Course_OrganizationID = 100\<rparr>"

definition demo_user :: User where
  "demo_user = \<lparr>User_ID = 42, User_Login = ''ada''\<rparr>"

definition demo_enrollment :: "Enrollment_UserStatus \<Rightarrow> uint64 \<Rightarrow> Enrollment" where
  "demo_enrollment st g =
     \<lparr>Enrollment_UserID = 42, Enrollment_CourseID = 7, Enrollment_GroupID = g,
      Enrollment_Status = st, Enrollment_User = Some demo_user,
      Enrollment_Course = Some demo_course\<rparr>"

definition demo_matches :: "Repository \<Rightarrow> Repository \<Rightarrow> bool" where
  "demo_matches q r \<longleftrightarrow>
     Repository_OrganizationID r = Repository_OrganizationID q \<and>
     Repository_RepoType r = Repository_RepoType q \<and>
     (Repository_UserID q = 0 \<or> Repository_UserID r = Repository_UserID q)"

definition demo_db :: "mem Database" where
  "demo_db =
    \<lparr>GetCourse = (\<lambda>cid m. (Inr demo_course, m)),
     GetEnrollmentByCourseAndUser = (\<lambda>cid uid m. (Inr (demo_enrollment (mem_status m) 0), m)),
     GetEnrollmentsByCourse = (\<lambda>cid states m.
       (Inr [demo_enrollment Enrollment_STUDENT 0, demo_enrollment Enrollment_STUDENT 3,
             demo_enrollment Enrollment_TEACHER 0], m)),
     GetRepositories = (\<lambda>q m. (Inr (filter (demo_matches q) (mem_repos m)), m)),
     CreateEnrollment = (\<lambda>e m. (None, m)),
     RejectEnrollment = (\<lambda>uid cid m. (None, Mem Enrollment_REJECTED (mem_repos m))),
     SetPendingEnrollment = (\<lambda>uid cid m. (None, Mem Enrollment_PENDING (mem_repos m))),
     EnrollStudent = (\<lambda>uid cid m. (None, Mem Enrollment_STUDENT (mem_repos m))),
     EnrollTeacher = (\<lambda>uid cid m. (None, Mem Enrollment_TEACHER (mem_repos m))),
     CreateRepository = (\<lambda>r m. (None, Mem (mem_status m) (mem_repos m @ [r])))\<rparr>"

definition demo_service :: "mem AutograderService" where
  "demo_service = \<lparr>db = demo_db, logger_Errorf = (\<lambda>format args m. m)\<rparr>"

datatype scm_step =
    Step_GetOrganization
  | Step_AddTeamMember
  | Step_RemoveTeamMember
  | Step_UpdateOrgMembership
  | Step_createRepoAndTeam

definition demo_error :: error where
  "demo_error = ProviderError 502 ''Bad Gateway''"

definition demo_org :: Organization where
  "demo_org = \<lparr>Organization_ID = 100, Organization_Path = ''course-7''\<rparr>"

definition demo_fail :: "scm_step option \<Rightarrow> scm_step \<Rightarrow> error option" where
  "demo_fail failing step = (if failing = Some step then Some demo_error else None)"

definition demo_SCM :: "scm_step option \<Rightarrow> (unit, mem) SCM" where
  "demo_SCM failing =
    \<lparr>GetOrganization = (\<lambda>ctx oid m.
       (if failing = Some Step_GetOrganization then Inl demo_error else Inr demo_org, m)),
     AddTeamMember = (\<lambda>ctx opt m. (demo_fail failing Step_AddTeamMember, m)),
     RemoveTeamMember = (\<lambda>ctx opt m. (demo_fail failing Step_RemoveTeamMember, m)),
     UpdateOrgMembership = (\<lambda>ctx opt m. (demo_fail failing Step_UpdateOrgMembership, m))\<rparr>"

definition demo_repo :: scm_Repository where
  "demo_repo = \<lparr>scm_Repository_ID = 900, scm_Repository_WebURL = ''https://scm.example/course-7/ada-labs''\<rparr>"

definition demo_team :: scm_Team where
  "demo_team = \<lparr>scm_Team_ID = 31, scm_Team_Name = ''ada''\<rparr>"

definition demo_Package :: "scm_step option \<Rightarrow> (unit, mem) Package" where
  "demo_Package failing =
    \<lparr>createRepoAndTeam = (\<lambda>ctx course name login members m.
       (if failing = Some Step_createRepoAndTeam then Inl demo_error
        else Inr (demo_repo, demo_team), m)),
     StudentRepoName = (\<lambda>login. login @ ''-labs''),
     log_Println = (\<lambda>args m. m)\<rparr>"

definition demo_request :: "Enrollment_UserStatus \<Rightarrow> Enrollment" where
  "demo_request st =
     \<lparr>Enrollment_UserID = 42, Enrollment_CourseID = 7, Enrollment_GroupID = 0,
      Enrollment_Status = st, Enrollment_User = None, Enrollment_Course = None\<rparr>"

definition demo_user_repo :: Repository where
  "demo_user_repo =
     \<lparr>Repository_OrganizationID = 100, Repository_RepositoryID = 900,
      Repository_UserID = 42,
      Repository_HTMLURL = ''https://scm.example/course-7/ada-labs'',
      Repository_RepoType = Repository_USER\<rparr>"

definition demo_gitlab :: "(unit, unit) GitlabSCM" where
  "demo_gitlab =
    \<lparr>Groups_ListGroups = (\<lambda>ctx u. (Inl (ProviderError 401 ''401 Unauthorized''), u)),
     Groups_CreateGroup = (\<lambda>opt ctx u.
       (Inl (ProviderError 409 ''409 Conflict: path has already been taken''), u)),
     Groups_GetGroup = (\<lambda>gid ctx u. (Inl (ProviderError 404 ''404 Group Not Found''), u))\<rparr>"

section \<open>What the recording doubles record\<close>

text \<open>
  Each method of a recording double runs the method it wraps and appends one event to
  the trace.
\<close>

lemma rec_GetOrganization:
  "GetOrganization (recording_SCM sc) ctx oid (tr, w) =
    (case GetOrganization sc ctx oid w of
       (r, w') \<Rightarrow> (r, tr @ [(SCM_GetOrganization oid, reply_sum Got_Organization r)], w'))"
  by (simp add: recording_SCM_def observe_def)

lemma rec_AddTeamMember:
  "AddTeamMember (recording_SCM sc) ctx opt (tr, w) =
    (case AddTeamMember sc ctx opt w of
       (r, w') \<Rightarrow> (r, tr @ [(SCM_AddTeamMember opt, reply_error r)], w'))"
  by (simp add: recording_SCM_def observe_def)

lemma rec_RemoveTeamMember:
  "RemoveTeamMember (recording_SCM sc) ctx opt (tr, w) =
    (case RemoveTeamMember sc ctx opt w of
       (r, w') \<Rightarrow> (r, tr @ [(SCM_RemoveTeamMember opt, reply_error r)], w'))"
  by (simp add: recording_SCM_def observe_def)

lemma rec_UpdateOrgMembership:
  "UpdateOrgMembership (recording_SCM sc) ctx m (tr, w) =
    (case UpdateOrgMembership sc ctx m w of
       (r, w') \<Rightarrow> (r, tr @ [(SCM_UpdateOrgMembership m, reply_error r)], w'))"
  by (simp add: recording_SCM_def observe_def)

lemma rec_createRepoAndTeam:
  "createRepoAndTeam (recording_Package pkg) ctx course name login members (tr, w) =
    (case createRepoAndTeam pkg ctx course name login members w of
       (r, w') \<Rightarrow> (r, tr @ [(SCM_createRepoAndTeam course name login members,
            reply_sum (\<lambda>(repo, team). Got_RepoAndTeam repo team) r)], w'))"
  by (simp add: recording_Package_def observe_def)

lemma rec_StudentRepoName: "StudentRepoName (recording_Package pkg) = StudentRepoName pkg"
  by (simp add: recording_Package_def)

lemma rec_log_Println:
  "log_Println (recording_Package pkg) args (tr, w) = (tr @ [(Log_Println args, Done)], log_Println pkg args w)"
  by (simp add: recording_Package_def observe_log_def)

lemmas rec_simps = rec_GetOrganization rec_AddTeamMember rec_RemoveTeamMember rec_UpdateOrgMembership
  rec_createRepoAndTeam rec_StudentRepoName rec_log_Println


lemma rec_GetCourse:
  "GetCourse (recording_Database d) cid (tr, w) =
    (case GetCourse d cid w of
       (r, w') \<Rightarrow> (r, tr @ [(DB_GetCourse cid, reply_sum Got_Course r)], w'))"
  by (simp add: recording_Database_def observe_def)

lemma rec_GetEnrollmentByCourseAndUser:
  "GetEnrollmentByCourseAndUser (recording_Database d) cid uid (tr, w) =
    (case GetEnrollmentByCourseAndUser d cid uid w of
       (r, w') \<Rightarrow> (r, tr @ [(DB_GetEnrollmentByCourseAndUser cid uid, reply_sum Got_Enrollment r)], w'))"
  by (simp add: recording_Database_def observe_def)

lemma rec_GetEnrollmentsByCourse:
  "GetEnrollmentsByCourse (recording_Database d) cid states (tr, w) =
    (case GetEnrollmentsByCourse d cid states w of
       (r, w') \<Rightarrow> (r, tr @ [(DB_GetEnrollmentsByCourse cid states, reply_sum Got_Enrollments r)], w'))"
  by (simp add: recording_Database_def observe_def)

lemma rec_GetRepositories:
  "GetRepositories (recording_Database d) q (tr, w) =
    (case GetRepositories d q w of
       (r, w') \<Rightarrow> (r, tr @ [(DB_GetRepositories q, reply_sum Got_Repositories r)], w'))"
  by (simp add: recording_Database_def observe_def)

lemma rec_CreateEnrollment:
  "CreateEnrollment (recording_Database d) e (tr, w) =
    (case CreateEnrollment d e w of
       (r, w') \<Rightarrow> (r, tr @ [(DB_CreateEnrollment e, reply_error r)], w'))"
  by (simp add: recording_Database_def observe_def)

lemma rec_RejectEnrollment:
  "RejectEnrollment (recording_Database d) uid cid (tr, w) =
    (case RejectEnrollment d uid cid w of
       (r, w') \<Rightarrow> (r, tr @ [(DB_RejectEnrollment uid cid, reply_error r)], w'))"
  by (simp add: recording_Database_def observe_def)

lemma rec_SetPendingEnrollment:
  "SetPendingEnrollment (recording_Database d) uid cid (tr, w) =
    (case SetPendingEnrollment d uid cid w of
       (r, w') \<Rightarrow> (r, tr @ [(DB_SetPendingEnrollment uid cid, reply_error r)], w'))"
  by (simp add: recording_Database_def observe_def)

lemma rec_EnrollStudent:
  "EnrollStudent (recording_Database d) uid cid (tr, w) =
    (case EnrollStudent d uid cid w of
       (r, w') \<Rightarrow> (r, tr @ [(DB_EnrollStudent uid cid, reply_error r)], w'))"
  by (simp add: recording_Database_def observe_def)

lemma rec_EnrollTeacher:
  "EnrollTeacher (recording_Database d) uid cid (tr, w) =
    (case EnrollTeacher d uid cid w of
       (r, w') \<Rightarrow> (r, tr @ [(DB_EnrollTeacher uid cid, reply_error r)], w'))"
  by (simp add: recording_Database_def observe_def)

lemma rec_CreateRepository:
  "CreateRepository (recording_Database d) repo (tr, w) =
    (case CreateRepository d repo w of
       (r, w') \<Rightarrow> (r, tr @ [(DB_CreateRepository repo, reply_error r)], w'))"
  by (simp add: recording_Database_def observe_def)

lemma rec_db: "db (recording_Service s) = recording_Database (db s)"
  by (simp add: recording_Service_def)

lemma rec_logger_Errorf:
  "logger_Errorf (recording_Service s) format args (tr, w) =
     (tr @ [(Logger_Errorf format args, Done)], logger_Errorf s format args w)"
  by (simp add: recording_Service_def observe_log_def)

lemmas rec_db_simps =
  rec_db rec_logger_Errorf rec_GetCourse rec_GetEnrollmentByCourseAndUser
  rec_GetEnrollmentsByCourse rec_GetRepositories rec_CreateEnrollment
  rec_RejectEnrollment rec_SetPendingEnrollment rec_EnrollStudent rec_EnrollTeacher
  rec_CreateRepository

section \<open>Traces of the SCM steps\<close>

text \<open>
  Both branches of \<open>updateReposAndTeams\<close> only extend the trace, and what they append
  satisfies \<open>scm_steps\<close>. The state is fixed in each lemma, which keeps the case
  analysis small.
\<close>

lemma updateReposAndTeams_teacher_steps:
  "case updateReposAndTeams (recording_Package pkg) ctx (recording_SCM sc) course login Enrollment_TEACHER (tr, w) of
    (out, tr', w') \<Rightarrow> (\<exists>evs. tr' = tr @ evs \<and> scm_steps out evs)"
  unfolding updateReposAndTeams_def scm_steps_def
  apply (simp add: Let_def rec_simps  split: prod.split sum.split option.split)
  apply (auto simp: reply_sum_def reply_error_def)
  done

lemma updateReposAndTeams_student_steps:
  "case updateReposAndTeams (recording_Package pkg) ctx (recording_SCM sc) course login Enrollment_STUDENT (tr, w) of
    (out, tr', w') \<Rightarrow> (\<exists>evs. tr' = tr @ evs \<and> scm_steps out evs)"
  unfolding updateReposAndTeams_def scm_steps_def
  apply (simp add: Let_def rec_simps  split: prod.split sum.split option.split)
  apply (auto simp: reply_sum_def reply_error_def)
  done

lemma updateReposAndTeams_teacher_stepsD:
  "updateReposAndTeams (recording_Package pkg) ctx (recording_SCM sc) course login Enrollment_TEACHER (tr, w) = (out, tr', w')
   \<Longrightarrow> \<exists>evs. tr' = tr @ evs \<and> scm_steps out evs"
  using updateReposAndTeams_teacher_steps [where pkg = pkg and ctx = ctx and sc = sc and course = course and login = login and tr = tr and w = w] by simp

lemma updateReposAndTeams_student_stepsD:
  "updateReposAndTeams (recording_Package pkg) ctx (recording_SCM sc) course login Enrollment_STUDENT (tr, w) = (out, tr', w')
   \<Longrightarrow> \<exists>evs. tr' = tr @ evs \<and> scm_steps out evs"
  using updateReposAndTeams_student_steps [where pkg = pkg and ctx = ctx and sc = sc and course = course and login = login and tr = tr and w = w] by simp

text \<open>Log entries never break \<open>only_logs_after_scm_failure\<close>.\<close>

lemma only_logs_of_logs:
  "list_all (\<lambda>ev. is_log (fst ev)) ys \<Longrightarrow> only_logs_after_scm_failure ys"
proof (induction ys)
  case (Cons a ys)
  then show ?case by (cases a; cases "fst a") auto
qed simp

lemma only_logs_append_logs:
  "only_logs_after_scm_failure xs \<Longrightarrow> list_all (\<lambda>ev. is_log (fst ev)) ys \<Longrightarrow>
   only_logs_after_scm_failure (xs @ ys)"
  by (induction xs) (auto simp: only_logs_of_logs)

text \<open>What \<open>scm_steps\<close> says for each outcome of \<open>updateReposAndTeams\<close>.\<close>

lemma scm_steps_Panic:
  "scm_steps Panic evs \<Longrightarrow> (c, Failed e) \<in> set evs \<Longrightarrow> is_scm_call c \<Longrightarrow> False"
  by (auto simp: scm_steps_def)

lemma scm_steps_Inr:
  "scm_steps (Return (Inr x)) evs \<Longrightarrow> (c, Failed e) \<in> set evs \<Longrightarrow> is_scm_call c \<Longrightarrow> False"
  by (auto simp: scm_steps_def)

lemma scm_steps_Inl:
  "scm_steps (Return (Inl err)) evs \<Longrightarrow>
     list_all (\<lambda>ev. \<not> is_store_write (fst ev)) evs \<and> only_logs_after_scm_failure evs \<and>
     (\<forall>c e. (c, Failed e) \<in> set evs \<and> is_scm_call c \<longrightarrow> e = err)"
  by (auto simp: scm_steps_def)

text \<open>
  A failed SCM call surfaces from \<open>updateEnrollment\<close>, for each requested status, when
  the enrollment was loaded with its user.
\<close>

lemma updateEnrollment_student_surfaces:
  assumes "GetEnrollmentByCourseAndUser (db s) (Enrollment_CourseID req) (Enrollment_UserID req) w = (Inr enr, w1)"
    and "Enrollment_User enr = Some u"
    and "Enrollment_Status req = Enrollment_STUDENT"
  shows "case recorded_updateEnrollment pkg s ctx sc (Some req) w of
           (out, tr, w') \<Rightarrow> scm_failure_surfaced out tr"
  using assms unfolding recorded_updateEnrollment_def updateEnrollment_def
  apply (simp add: Let_def rec_db_simps Enrollment_GetStatus_def split: prod.split sum.split option.split go.split)
  apply (auto simp: scm_failure_surfaced_def reply_sum_def reply_error_def only_logs_append_logs
       dest!: updateReposAndTeams_student_stepsD scm_steps_Inl dest: scm_steps_Panic scm_steps_Inr)
  done

lemma updateEnrollment_teacher_surfaces:
  assumes "GetEnrollmentByCourseAndUser (db s) (Enrollment_CourseID req) (Enrollment_UserID req) w = (Inr enr, w1)"
    and "Enrollment_User enr = Some u"
    and "Enrollment_Status req = Enrollment_TEACHER"
  shows "case recorded_updateEnrollment pkg s ctx sc (Some req) w of
           (out, tr, w') \<Rightarrow> scm_failure_surfaced out tr"
  using assms unfolding recorded_updateEnrollment_def updateEnrollment_def
  apply (simp add: Let_def rec_db_simps Enrollment_GetStatus_def split: prod.split sum.split option.split go.split)
  apply (auto simp: scm_failure_surfaced_def reply_sum_def reply_error_def only_logs_append_logs
       dest!: updateReposAndTeams_teacher_stepsD scm_steps_Inl dest: scm_steps_Panic scm_steps_Inr)
  done

lemma updateEnrollment_other_surfaces:
  assumes "GetEnrollmentByCourseAndUser (db s) (Enrollment_CourseID req) (Enrollment_UserID req) w = (Inr enr, w1)"
    and "Enrollment_Status req \<noteq> Enrollment_STUDENT" "Enrollment_Status req \<noteq> Enrollment_TEACHER"
  shows "case recorded_updateEnrollment pkg s ctx sc (Some req) w of
           (out, tr, w') \<Rightarrow> scm_failure_surfaced out tr"
  using assms unfolding recorded_updateEnrollment_def updateEnrollment_def
  by (auto simp: rec_db_simps scm_failure_surfaced_def reply_sum_def reply_error_def
      split: prod.split Enrollment_UserStatus.split)

lemma updateEnrollment_surfaces_scm_failure:
  assumes "GetEnrollmentByCourseAndUser (db s) (Enrollment_CourseID req) (Enrollment_UserID req) w = (Inr enr, w1)"
    and "Enrollment_User enr = Some u"
    and "recorded_updateEnrollment pkg s ctx sc (Some req) w = (out, tr, w')"
  shows "scm_failure_surfaced out tr"
proof -
  have "case recorded_updateEnrollment pkg s ctx sc (Some req) w of
           (out, tr, w') \<Rightarrow> scm_failure_surfaced out tr"
    using updateEnrollment_student_surfaces [OF assms(1,2), where pkg = pkg and ctx = ctx and sc = sc]
      updateEnrollment_teacher_surfaces [OF assms(1,2), where pkg = pkg and ctx = ctx and sc = sc]
      updateEnrollment_other_surfaces [OF assms(1), where pkg = pkg and ctx = ctx and sc = sc]
    by (cases "Enrollment_Status req") simp_all
  with assms(3) show ?thesis by simp
qed
section \<open>Enrollment transitions: the claims\<close>

lemmas run_defs = recorded_updateEnrollment_def updateEnrollment_def updateReposAndTeams_def

lemmas demo_defs = demo_service_def demo_db_def demo_request_def demo_enrollment_def
  demo_course_def demo_user_def demo_user_repo_def demo_matches_def
  Course_GetOrganizationID_def

text \<open>
  C3. A transition to STUDENT for which the store already returns at least one USER
  repository of the course's organization and the user makes no call to the SCM and
  creates no repository or team: the run consists of the two reads and of
  \<open>EnrollStudent\<close>, whose result it returns, so the existing repository record is
  reused.
\<close>

theorem student_existing_repository_reused:
  assumes "Enrollment_Status req = Enrollment_STUDENT"
    and "GetEnrollmentByCourseAndUser (db s) (Enrollment_CourseID req) (Enrollment_UserID req) w
           = (Inr enr, w1)"
    and "GetRepositories (db s)
           \<lparr>Repository_OrganizationID = Course_GetOrganizationID (Enrollment_Course enr),
            Repository_RepositoryID = 0,
            Repository_UserID = Enrollment_UserID req,
            Repository_HTMLURL = [],
            Repository_RepoType = Repository_USER\<rparr> w1 = (Inr repos, w2)"
    and "repos \<noteq> []"
    and "EnrollStudent (db s) (Enrollment_UserID req) (Enrollment_CourseID req) w2 = (r, w3)"
  shows "recorded_updateEnrollment pkg s ctx sc (Some req) w =
          (Return r,
           [(DB_GetEnrollmentByCourseAndUser (Enrollment_CourseID req) (Enrollment_UserID req),
               Got_Enrollment enr),
            (DB_GetRepositories
               \<lparr>Repository_OrganizationID = Course_GetOrganizationID (Enrollment_Course enr),
                Repository_RepositoryID = 0,
                Repository_UserID = Enrollment_UserID req,
                Repository_HTMLURL = [],
                Repository_RepoType = Repository_USER\<rparr>, Got_Repositories repos),
            (DB_EnrollStudent (Enrollment_UserID req) (Enrollment_CourseID req), reply_error r)],
           w3)"
  using assms unfolding recorded_updateEnrollment_def updateEnrollment_def
  by (simp add: rec_db_simps Enrollment_GetUserID_def reply_sum_def)

theorem student_existing_repository_reused_witness:
  "GetRepositories demo_db
     \<lparr>Repository_OrganizationID = 100, Repository_RepositoryID = 0, Repository_UserID = 42,
      Repository_HTMLURL = [], Repository_RepoType = Repository_USER\<rparr>
     (Mem Enrollment_REJECTED [demo_user_repo])
     = (Inr [demo_user_repo], Mem Enrollment_REJECTED [demo_user_repo]) \<and>
   recorded_updateEnrollment (demo_Package None) demo_service () (demo_SCM None)
     (Some (demo_request Enrollment_STUDENT)) (Mem Enrollment_REJECTED [demo_user_repo])
     = (Return None,
        [(DB_GetEnrollmentByCourseAndUser 7 42,
            Got_Enrollment (demo_enrollment Enrollment_REJECTED 0)),
         (DB_GetRepositories
            \<lparr>Repository_OrganizationID = 100, Repository_RepositoryID = 0,
             Repository_UserID = 42, Repository_HTMLURL = [],
             Repository_RepoType = Repository_USER\<rparr>, Got_Repositories [demo_user_repo]),
         (DB_EnrollStudent 42 7, Done)],
        Mem Enrollment_STUDENT [demo_user_repo])"
proof -
  let ?w = "Mem Enrollment_REJECTED [demo_user_repo]"
  let ?req = "demo_request Enrollment_STUDENT"
  let ?enr = "demo_enrollment Enrollment_REJECTED 0"
  have h1: "Enrollment_Status ?req = Enrollment_STUDENT"
    by (simp add: demo_request_def)
  have h2: "GetEnrollmentByCourseAndUser (db demo_service) (Enrollment_CourseID ?req)
              (Enrollment_UserID ?req) ?w = (Inr ?enr, ?w)"
    by (simp add: demo_service_def demo_db_def)
  have h3: "GetRepositories (db demo_service)
              \<lparr>Repository_OrganizationID = Course_GetOrganizationID (Enrollment_Course ?enr),
               Repository_RepositoryID = 0,
               Repository_UserID = Enrollment_UserID ?req,
               Repository_HTMLURL = [],
               Repository_RepoType = Repository_USER\<rparr> ?w = (Inr [demo_user_repo], ?w)"
    by (simp add: demo_defs)
  have h4: "[demo_user_repo] \<noteq> []"
    by simp
  have h5: "EnrollStudent (db demo_service) (Enrollment_UserID ?req) (Enrollment_CourseID ?req) ?w
              = (None, Mem Enrollment_STUDENT [demo_user_repo])"
    by (simp add: demo_service_def demo_db_def)
  from student_existing_repository_reused [OF h1 h2 h3 h4 h5, of "demo_Package None" "()" "demo_SCM None"] h3
  show ?thesis
    by (simp add: demo_request_def demo_enrollment_def demo_course_def demo_service_def
        Course_GetOrganizationID_def reply_error_def)
qed

text \<open>
  C5. When the enrollment loads and the requested status is none of PENDING, REJECTED,
  STUDENT, TEACHER, the call returns the error \<^verbatim>\<open>unknown enrollment\<close> (the code's
  error for an invalid transition); its only call is the read of the enrollment, so it
  makes no SCM call and no store write.
\<close>

theorem unknown_status_rejected:
  assumes "Enrollment_Status req \<notin>
             {Enrollment_PENDING, Enrollment_REJECTED, Enrollment_STUDENT, Enrollment_TEACHER}"
    and "GetEnrollmentByCourseAndUser (db s) (Enrollment_CourseID req) (Enrollment_UserID req) w
           = (Inr enr, w1)"
  shows "recorded_updateEnrollment pkg s ctx sc (Some req) w =
          (Return (Some (fmt_Errorf ''unknown enrollment'' [])),
           [(DB_GetEnrollmentByCourseAndUser (Enrollment_CourseID req) (Enrollment_UserID req),
               Got_Enrollment enr)],
           w1)"
  using assms unfolding recorded_updateEnrollment_def updateEnrollment_def
  by (simp add: rec_db_simps reply_sum_def split: Enrollment_UserStatus.split)

theorem unknown_status_rejected_witness:
  "Enrollment_Status (demo_request (Enrollment_UNNAMED 9)) \<notin>
      {Enrollment_PENDING, Enrollment_REJECTED, Enrollment_STUDENT, Enrollment_TEACHER} \<and>
   recorded_updateEnrollment (demo_Package None) demo_service () (demo_SCM None)
     (Some (demo_request (Enrollment_UNNAMED 9))) (Mem Enrollment_PENDING [])
     = (Return (Some (fmt_Errorf ''unknown enrollment'' [])),
        [(DB_GetEnrollmentByCourseAndUser 7 42,
            Got_Enrollment (demo_enrollment Enrollment_PENDING 0))],
        Mem Enrollment_PENDING [])"
proof -
  let ?w = "Mem Enrollment_PENDING []"
  let ?req = "demo_request (Enrollment_UNNAMED 9)"
  have h1: "Enrollment_Status ?req \<notin>
      {Enrollment_PENDING, Enrollment_REJECTED, Enrollment_STUDENT, Enrollment_TEACHER}"
    by (simp add: demo_request_def)
  have h2: "GetEnrollmentByCourseAndUser (db demo_service) (Enrollment_CourseID ?req)
              (Enrollment_UserID ?req) ?w = (Inr (demo_enrollment Enrollment_PENDING 0), ?w)"
    by (simp add: demo_service_def demo_db_def)
  from unknown_status_rejected [OF h1 h2, of "demo_Package None" "()" "demo_SCM None"] h1
  show ?thesis
    by (simp add: demo_request_def)
qed

text \<open>
  C2. A TEACHER transition that reaches the SCM phase (the enrollment is loaded with
  its course and user, and the organization is resolved) calls, in this order,
  \<open>UpdateOrgMembership\<close> with role \<^verbatim>\<open>admin\<close>, \<open>RemoveTeamMember\<close> for the team
  \<^verbatim>\<open>students\<close>, and \<open>AddTeamMember\<close> for the team \<^verbatim>\<open>teachers\<close> with role
  \<^verbatim>\<open>maintainer\<close>. The run stops at the first call that fails and returns its error;
  \<open>EnrollTeacher\<close> is called only after all three succeeded, and nothing else is called.
\<close>

theorem teacher_promotion_order:
  assumes "Enrollment_Status req = Enrollment_TEACHER"
    and "GetEnrollmentByCourseAndUser (db s) (Enrollment_CourseID req) (Enrollment_UserID req) w
           = (Inr enr, w1)"
    and "Enrollment_Course enr = Some c"
    and "Enrollment_User enr = Some t"
    and "GetOrganization sc ctx (Course_OrganizationID c) w1 = (Inr org, w2)"
  shows "case recorded_updateEnrollment pkg s ctx sc (Some req) w of (out, tr, w') \<Rightarrow>
     (\<exists>rest. effects tr =
        [(DB_GetEnrollmentByCourseAndUser (Enrollment_CourseID req) (Enrollment_UserID req),
            Got_Enrollment enr),
         (SCM_GetOrganization (Course_OrganizationID c), Got_Organization org)] @ rest \<and>
      ((\<exists>e. out = Return (Some e) \<and> rest =
          [(SCM_UpdateOrgMembership
              \<lparr>OrgMembership_Organization = org, OrgMembership_Username = User_Login t,
               OrgMembership_Role = ''admin''\<rparr>, Failed e)]) \<or>
       (\<exists>e. out = Return (Some e) \<and> rest =
          [(SCM_UpdateOrgMembership
              \<lparr>OrgMembership_Organization = org, OrgMembership_Username = User_Login t,
               OrgMembership_Role = ''admin''\<rparr>, Done),
           (SCM_RemoveTeamMember
              \<lparr>TeamMembershipOptions_Organization = org, TeamMembershipOptions_TeamID = 0,
               TeamMembershipOptions_TeamSlug = ''students'',
               TeamMembershipOptions_Username = User_Login t,
               TeamMembershipOptions_Role = []\<rparr>, Failed e)]) \<or>
       (\<exists>e. out = Return (Some e) \<and> rest =
          [(SCM_UpdateOrgMembership
              \<lparr>OrgMembership_Organization = org, OrgMembership_Username = User_Login t,
               OrgMembership_Role = ''admin''\<rparr>, Done),
           (SCM_RemoveTeamMember
              \<lparr>TeamMembershipOptions_Organization = org, TeamMembershipOptions_TeamID = 0,
               TeamMembershipOptions_TeamSlug = ''students'',
               TeamMembershipOptions_Username = User_Login t,
               TeamMembershipOptions_Role = []\<rparr>, Done),
           (SCM_AddTeamMember
              \<lparr>TeamMembershipOptions_Organization = org, TeamMembershipOptions_TeamID = 0,
               TeamMembershipOptions_TeamSlug = ''teachers'',
               TeamMembershipOptions_Username = User_Login t,
               TeamMembershipOptions_Role = ''maintainer''\<rparr>, Failed e)]) \<or>
       (\<exists>r. out = Return r \<and> rest =
          [(SCM_UpdateOrgMembership
              \<lparr>OrgMembership_Organization = org, OrgMembership_Username = User_Login t,
               OrgMembership_Role = ''admin''\<rparr>, Done),
           (SCM_RemoveTeamMember
              \<lparr>TeamMembershipOptions_Organization = org, TeamMembershipOptions_TeamID = 0,
               TeamMembershipOptions_TeamSlug = ''students'',
               TeamMembershipOptions_Username = User_Login t,
               TeamMembershipOptions_Role = []\<rparr>, Done),
           (SCM_AddTeamMember
              \<lparr>TeamMembershipOptions_Organization = org, TeamMembershipOptions_TeamID = 0,
               TeamMembershipOptions_TeamSlug = ''teachers'',
               TeamMembershipOptions_Username = User_Login t,
               TeamMembershipOptions_Role = ''maintainer''\<rparr>, Done),
           (DB_EnrollTeacher (User_ID t) (Course_ID c), reply_error r)])))"
  using assms unfolding run_defs
  apply (simp add: Let_def rec_db_simps rec_simps Enrollment_GetStatus_def User_GetLogin_def
      reply_sum_def split: prod.split option.split)
  apply (auto simp: effects_def reply_error_def)
  done

theorem teacher_promotion_order_witness:
  "GetOrganization (demo_SCM (Some Step_AddTeamMember)) () 100 (Mem Enrollment_STUDENT [])
     = (Inr demo_org, Mem Enrollment_STUDENT []) \<and>
   (case recorded_updateEnrollment (demo_Package None) demo_service ()
           (demo_SCM (Some Step_AddTeamMember))
           (Some (demo_request Enrollment_TEACHER)) (Mem Enrollment_STUDENT []) of
      (out, tr, w') \<Rightarrow>
        out = Return (Some demo_error) \<and> w' = Mem Enrollment_STUDENT [] \<and>
        map fst (effects tr) =
          [DB_GetEnrollmentByCourseAndUser 7 42,
           SCM_GetOrganization 100,
           SCM_UpdateOrgMembership
             \<lparr>OrgMembership_Organization = demo_org, OrgMembership_Username = ''ada'',
              OrgMembership_Role = ''admin''\<rparr>,
           SCM_RemoveTeamMember
             \<lparr>TeamMembershipOptions_Organization = demo_org, TeamMembershipOptions_TeamID = 0,
              TeamMembershipOptions_TeamSlug = ''students'',
              TeamMembershipOptions_Username = ''ada'', TeamMembershipOptions_Role = []\<rparr>,
           SCM_AddTeamMember
             \<lparr>TeamMembershipOptions_Organization = demo_org, TeamMembershipOptions_TeamID = 0,
              TeamMembershipOptions_TeamSlug = ''teachers'',
              TeamMembershipOptions_Username = ''ada'',
              TeamMembershipOptions_Role = ''maintainer''\<rparr>])"
proof -
  let ?w = "Mem Enrollment_STUDENT []"
  let ?req = "demo_request Enrollment_TEACHER"
  let ?sc = "demo_SCM (Some Step_AddTeamMember)"
  have h1: "Enrollment_Status ?req = Enrollment_TEACHER"
    by (simp add: demo_request_def)
  have h2: "GetEnrollmentByCourseAndUser (db demo_service) (Enrollment_CourseID ?req)
              (Enrollment_UserID ?req) ?w = (Inr (demo_enrollment Enrollment_STUDENT 0), ?w)"
    by (simp add: demo_service_def demo_db_def)
  have h3: "Enrollment_Course (demo_enrollment Enrollment_STUDENT 0) = Some demo_course"
    by (simp add: demo_enrollment_def)
  have h4: "Enrollment_User (demo_enrollment Enrollment_STUDENT 0) = Some demo_user"
    by (simp add: demo_enrollment_def)
  have h5: "GetOrganization ?sc () (Course_OrganizationID demo_course) ?w = (Inr demo_org, ?w)"
    by (simp add: demo_SCM_def demo_course_def)
  have run: "recorded_updateEnrollment (demo_Package None) demo_service () ?sc (Some ?req) ?w
      = (Return (Some demo_error),
         [(DB_GetEnrollmentByCourseAndUser 7 42,
             Got_Enrollment (demo_enrollment Enrollment_STUDENT 0)),
          (SCM_GetOrganization 100, Got_Organization demo_org),
          (SCM_UpdateOrgMembership
             \<lparr>OrgMembership_Organization = demo_org, OrgMembership_Username = ''ada'',
              OrgMembership_Role = ''admin''\<rparr>, Done),
          (SCM_RemoveTeamMember
             \<lparr>TeamMembershipOptions_Organization = demo_org, TeamMembershipOptions_TeamID = 0,
              TeamMembershipOptions_TeamSlug = ''students'',
              TeamMembershipOptions_Username = ''ada'', TeamMembershipOptions_Role = []\<rparr>, Done),
          (SCM_AddTeamMember
             \<lparr>TeamMembershipOptions_Organization = demo_org, TeamMembershipOptions_TeamID = 0,
              TeamMembershipOptions_TeamSlug = ''teachers'',
              TeamMembershipOptions_Username = ''ada'',
              TeamMembershipOptions_Role = ''maintainer''\<rparr>, Failed demo_error),
          (Logger_Errorf
             ''UpdateEnrollment: failed to update team membersip for teacher %s: %s''
             [Log_string ''ada'', Log_Error demo_error], Done)],
         ?w)"
    unfolding run_defs
    by (simp add: Let_def rec_db_simps rec_simps demo_defs demo_SCM_def demo_fail_def
        Enrollment_GetStatus_def User_GetLogin_def reply_sum_def reply_error_def)
  from teacher_promotion_order [OF h1 h2 h3 h4 h5, of "demo_Package None"] h5
  show ?thesis
    by (simp add: run effects_def demo_course_def)
qed

text \<open>
  C4. A transition to STUDENT for which the store returns no USER repository resolves
  the organization, adds the user to the team \<^verbatim>\<open>students\<close>, creates the repository and
  the team of the user, stores the repository record and then calls \<open>EnrollStudent\<close>,
  in this order. Each step runs only after the one before succeeded and the run returns
  the error of the first step that fails, so every call to the SCM comes before every
  write to the store.
\<close>

theorem student_provisioning_order:
  assumes "Enrollment_Status req = Enrollment_STUDENT"
    and "GetEnrollmentByCourseAndUser (db s) (Enrollment_CourseID req) (Enrollment_UserID req) w
           = (Inr enr, w1)"
    and "Enrollment_Course enr = Some c"
    and "Enrollment_User enr = Some u"
    and "GetRepositories (db s)
           \<lparr>Repository_OrganizationID = Course_OrganizationID c,
            Repository_RepositoryID = 0,
            Repository_UserID = Enrollment_UserID req,
            Repository_HTMLURL = [],
            Repository_RepoType = Repository_USER\<rparr> w1 = (Inr [], w2)"
  shows "case recorded_updateEnrollment pkg s ctx sc (Some req) w of (out, tr, w') \<Rightarrow>
     (\<exists>rest. effects tr =
        [(DB_GetEnrollmentByCourseAndUser (Enrollment_CourseID req) (Enrollment_UserID req),
            Got_Enrollment enr),
         (DB_GetRepositories
            \<lparr>Repository_OrganizationID = Course_OrganizationID c,
             Repository_RepositoryID = 0,
             Repository_UserID = Enrollment_UserID req,
             Repository_HTMLURL = [],
             Repository_RepoType = Repository_USER\<rparr>, Got_Repositories [])] @ rest \<and>
      ((\<exists>e. out = Return (Some e) \<and> rest =
          [(SCM_GetOrganization (Course_OrganizationID c), Failed e)]) \<or>
       (\<exists>org e. out = Return (Some e) \<and> rest =
          [(SCM_GetOrganization (Course_OrganizationID c), Got_Organization org),
           (SCM_AddTeamMember
              \<lparr>TeamMembershipOptions_Organization = org, TeamMembershipOptions_TeamID = 0,
               TeamMembershipOptions_TeamSlug = ''students'',
               TeamMembershipOptions_Username = User_Login u,
               TeamMembershipOptions_Role = []\<rparr>, Failed e)]) \<or>
       (\<exists>org e. out = Return (Some e) \<and> rest =
          [(SCM_GetOrganization (Course_OrganizationID c), Got_Organization org),
           (SCM_AddTeamMember
              \<lparr>TeamMembershipOptions_Organization = org, TeamMembershipOptions_TeamID = 0,
               TeamMembershipOptions_TeamSlug = ''students'',
               TeamMembershipOptions_Username = User_Login u,
               TeamMembershipOptions_Role = []\<rparr>, Done),
           (SCM_createRepoAndTeam (Some c) (StudentRepoName pkg (User_Login u)) (User_Login u)
              [User_Login u], Failed e)]) \<or>
       (\<exists>org repo team e. out = Return (Some e) \<and> rest =
          [(SCM_GetOrganization (Course_OrganizationID c), Got_Organization org),
           (SCM_AddTeamMember
              \<lparr>TeamMembershipOptions_Organization = org, TeamMembershipOptions_TeamID = 0,
               TeamMembershipOptions_TeamSlug = ''students'',
               TeamMembershipOptions_Username = User_Login u,
               TeamMembershipOptions_Role = []\<rparr>, Done),
           (SCM_createRepoAndTeam (Some c) (StudentRepoName pkg (User_Login u)) (User_Login u)
              [User_Login u], Got_RepoAndTeam repo team),
           (DB_CreateRepository
              \<lparr>Repository_OrganizationID = Course_OrganizationID c,
               Repository_RepositoryID = scm_Repository_ID repo,
               Repository_UserID = Enrollment_UserID req,
               Repository_HTMLURL = scm_Repository_WebURL repo,
               Repository_RepoType = Repository_USER\<rparr>, Failed e)]) \<or>
       (\<exists>org repo team r. out = Return r \<and> rest =
          [(SCM_GetOrganization (Course_OrganizationID c), Got_Organization org),
           (SCM_AddTeamMember
              \<lparr>TeamMembershipOptions_Organization = org, TeamMembershipOptions_TeamID = 0,
               TeamMembershipOptions_TeamSlug = ''students'',
               TeamMembershipOptions_Username = User_Login u,
               TeamMembershipOptions_Role = []\<rparr>, Done),
           (SCM_createRepoAndTeam (Some c) (StudentRepoName pkg (User_Login u)) (User_Login u)
              [User_Login u], Got_RepoAndTeam repo team),
           (DB_CreateRepository
              \<lparr>Repository_OrganizationID = Course_OrganizationID c,
               Repository_RepositoryID = scm_Repository_ID repo,
               Repository_UserID = Enrollment_UserID req,
               Repository_HTMLURL = scm_Repository_WebURL repo,
               Repository_RepoType = Repository_USER\<rparr>, Done),
           (DB_EnrollStudent (Enrollment_UserID req) (Enrollment_CourseID req),
              reply_error r)])))"
  using assms unfolding run_defs
  apply (simp add: Let_def rec_db_simps rec_simps Enrollment_GetStatus_def Enrollment_GetUserID_def
      User_GetLogin_def Course_GetOrganizationID_def reply_sum_def
      split: prod.split option.split sum.split)
  apply (auto simp: effects_def reply_error_def)
  done

theorem student_provisioning_order_witness:
  "GetRepositories demo_db
     \<lparr>Repository_OrganizationID = 100, Repository_RepositoryID = 0, Repository_UserID = 42,
      Repository_HTMLURL = [], Repository_RepoType = Repository_USER\<rparr>
     (Mem Enrollment_PENDING []) = (Inr [], Mem Enrollment_PENDING []) \<and>
   (case recorded_updateEnrollment (demo_Package None) demo_service () (demo_SCM None)
           (Some (demo_request Enrollment_STUDENT)) (Mem Enrollment_PENDING []) of
      (out, tr, w') \<Rightarrow>
        out = Return None \<and> w' = Mem Enrollment_STUDENT [demo_user_repo] \<and>
        map fst (effects tr) =
          [DB_GetEnrollmentByCourseAndUser 7 42,
           DB_GetRepositories
             \<lparr>Repository_OrganizationID = 100, Repository_RepositoryID = 0,
              Repository_UserID = 42, Repository_HTMLURL = [],
              Repository_RepoType = Repository_USER\<rparr>,
           SCM_GetOrganization 100,
           SCM_AddTeamMember
             \<lparr>TeamMembershipOptions_Organization = demo_org, TeamMembershipOptions_TeamID = 0,
              TeamMembershipOptions_TeamSlug = ''students'',
              TeamMembershipOptions_Username = ''ada'', TeamMembershipOptions_Role = []\<rparr>,
           SCM_createRepoAndTeam (Some demo_course) ''ada-labs'' ''ada'' [''ada''],
           DB_CreateRepository demo_user_repo,
           DB_EnrollStudent 42 7])"
proof -
  let ?w = "Mem Enrollment_PENDING []"
  let ?req = "demo_request Enrollment_STUDENT"
  have h1: "Enrollment_Status ?req = Enrollment_STUDENT"
    by (simp add: demo_request_def)
  have h2: "GetEnrollmentByCourseAndUser (db demo_service) (Enrollment_CourseID ?req)
              (Enrollment_UserID ?req) ?w = (Inr (demo_enrollment Enrollment_PENDING 0), ?w)"
    by (simp add: demo_service_def demo_db_def)
  have h3: "Enrollment_Course (demo_enrollment Enrollment_PENDING 0) = Some demo_course"
    by (simp add: demo_enrollment_def)
  have h4: "Enrollment_User (demo_enrollment Enrollment_PENDING 0) = Some demo_user"
    by (simp add: demo_enrollment_def)
  have h5: "GetRepositories (db demo_service)
              \<lparr>Repository_OrganizationID = Course_OrganizationID demo_course,
               Repository_RepositoryID = 0,
               Repository_UserID = Enrollment_UserID ?req,
               Repository_HTMLURL = [],
               Repository_RepoType = Repository_USER\<rparr> ?w = (Inr [], ?w)"
    by (simp add: demo_defs)
  have run: "recorded_updateEnrollment (demo_Package None) demo_service () (demo_SCM None)
               (Some ?req) ?w
      = (Return None,
         [(DB_GetEnrollmentByCourseAndUser 7 42,
             Got_Enrollment (demo_enrollment Enrollment_PENDING 0)),
          (DB_GetRepositories
             \<lparr>Repository_OrganizationID = 100, Repository_RepositoryID = 0,
              Repository_UserID = 42, Repository_HTMLURL = [],
              Repository_RepoType = Repository_USER\<rparr>, Got_Repositories []),
          (SCM_GetOrganization 100, Got_Organization demo_org),
          (SCM_AddTeamMember
             \<lparr>TeamMembershipOptions_Organization = demo_org, TeamMembershipOptions_TeamID = 0,
              TeamMembershipOptions_TeamSlug = ''students'',
              TeamMembershipOptions_Username = ''ada'', TeamMembershipOptions_Role = []\<rparr>, Done),
          (SCM_createRepoAndTeam (Some demo_course) ''ada-labs'' ''ada'' [''ada''],
             Got_RepoAndTeam demo_repo demo_team),
          (DB_CreateRepository demo_user_repo, Done),
          (DB_EnrollStudent 42 7, Done)],
         Mem Enrollment_STUDENT [demo_user_repo])"
    unfolding run_defs
    by (simp add: Let_def rec_db_simps rec_simps demo_defs demo_SCM_def demo_fail_def
        demo_Package_def demo_repo_def Enrollment_GetStatus_def Enrollment_GetUserID_def User_GetLogin_def
        reply_sum_def reply_error_def)
  from student_provisioning_order [OF h1 h2 h3 h4 h5, of "demo_Package None" "()" "demo_SCM None"]
  show ?thesis
    by (simp add: run effects_def demo_db_def)
qed

text \<open>
  C1. Whenever a call to the SCM fails during a transition of an enrollment that the
  store loaded together with its user - \<open>GetOrganization\<close>, \<open>AddTeamMember\<close>,
  \<open>RemoveTeamMember\<close>, \<open>UpdateOrgMembership\<close> or the creation of the repository and
  team - \<open>updateEnrollment\<close> returns that error, and no call of the run writes to the
  store: neither \<open>EnrollStudent\<close> nor \<open>EnrollTeacher\<close> nor \<open>CreateRepository\<close> is
  called, so the stored status of the enrollment is as before.
\<close>

theorem scm_failure_no_store_write:
  assumes "GetEnrollmentByCourseAndUser (db s) (Enrollment_CourseID req) (Enrollment_UserID req) w
           = (Inr enr, w1)"
    and "Enrollment_User enr = Some u"
    and "recorded_updateEnrollment pkg s ctx sc (Some req) w = (out, tr, w')"
    and "(c, Failed e) \<in> set tr"
    and "is_scm_call c"
  shows "out = Return (Some e) \<and> list_all (\<lambda>ev. \<not> is_store_write (fst ev)) tr"
  using updateEnrollment_surfaces_scm_failure [OF assms(1,2,3)] assms(4,5)
  by (simp add: scm_failure_surfaced_def)

theorem scm_failure_no_store_write_witness:
  "Enrollment_User (demo_enrollment Enrollment_PENDING 0) = Some demo_user \<and>
   is_scm_call (SCM_createRepoAndTeam (Some demo_course) ''ada-labs'' ''ada'' [''ada'']) \<and>
   (case recorded_updateEnrollment (demo_Package (Some Step_createRepoAndTeam)) demo_service ()
           (demo_SCM (Some Step_createRepoAndTeam))
           (Some (demo_request Enrollment_STUDENT)) (Mem Enrollment_PENDING []) of
      (out, tr, w') \<Rightarrow>
        (SCM_createRepoAndTeam (Some demo_course) ''ada-labs'' ''ada'' [''ada''],
           Failed demo_error) \<in> set tr \<and>
        out = Return (Some demo_error) \<and>
        list_all (\<lambda>ev. \<not> is_store_write (fst ev)) tr \<and>
        w' = Mem Enrollment_PENDING [])"
proof -
  let ?w = "Mem Enrollment_PENDING []"
  let ?req = "demo_request Enrollment_STUDENT"
  let ?tr = "[(DB_GetEnrollmentByCourseAndUser 7 42,
             Got_Enrollment (demo_enrollment Enrollment_PENDING 0)),
          (DB_GetRepositories
             \<lparr>Repository_OrganizationID = 100, Repository_RepositoryID = 0,
              Repository_UserID = 42, Repository_HTMLURL = [],
              Repository_RepoType = Repository_USER\<rparr>, Got_Repositories []),
          (SCM_GetOrganization 100, Got_Organization demo_org),
          (SCM_AddTeamMember
             \<lparr>TeamMembershipOptions_Organization = demo_org, TeamMembershipOptions_TeamID = 0,
              TeamMembershipOptions_TeamSlug = ''students'',
              TeamMembershipOptions_Username = ''ada'', TeamMembershipOptions_Role = []\<rparr>, Done),
          (SCM_createRepoAndTeam (Some demo_course) ''ada-labs'' ''ada'' [''ada''],
             Failed demo_error),
          (Logger_Errorf
             ''UpdateEnrollment: failed to update repos or team membersip for student %s: %s''
             [Log_string ''ada'', Log_Error demo_error], Done)]"
  have h1: "GetEnrollmentByCourseAndUser (db demo_service) (Enrollment_CourseID ?req)
              (Enrollment_UserID ?req) ?w = (Inr (demo_enrollment Enrollment_PENDING 0), ?w)"
    by (simp add: demo_service_def demo_db_def)
  have h2: "Enrollment_User (demo_enrollment Enrollment_PENDING 0) = Some demo_user"
    by (simp add: demo_enrollment_def)
  have run: "recorded_updateEnrollment (demo_Package (Some Step_createRepoAndTeam)) demo_service ()
               (demo_SCM (Some Step_createRepoAndTeam)) (Some ?req) ?w
      = (Return (Some demo_error), ?tr, ?w)"
    unfolding run_defs
    by (simp add: Let_def rec_db_simps rec_simps demo_defs demo_SCM_def demo_fail_def
        demo_Package_def Enrollment_GetStatus_def Enrollment_GetUserID_def User_GetLogin_def
        reply_sum_def reply_error_def)
  have h4: "(SCM_createRepoAndTeam (Some demo_course) ''ada-labs'' ''ada'' [''ada''],
              Failed demo_error) \<in> set ?tr"
    by simp
  have h5: "is_scm_call (SCM_createRepoAndTeam (Some demo_course) ''ada-labs'' ''ada'' [''ada''])"
    by simp
  from scm_failure_no_store_write [OF h1 h2 run h4 h5] h2
  show ?thesis
    by (simp add: run)
qed

text \<open>
  C6, as the code has it. Whenever a call to the SCM fails during a transition of an
  enrollment that the store loaded together with its user, the error that
  \<open>updateEnrollment\<close> returns is the error of the adapter itself, unchanged: it is
  not enriched with context that identifies the failed step. The error is neither
  swallowed nor reinterpreted, and every event of the run after the failed call is a
  log entry, so no compensating SCM action is performed.
\<close>

theorem scm_error_returned_unchanged:
  assumes "GetEnrollmentByCourseAndUser (db s) (Enrollment_CourseID req) (Enrollment_UserID req) w
           = (Inr enr, w1)"
    and "Enrollment_User enr = Some u"
    and "recorded_updateEnrollment pkg s ctx sc (Some req) w = (out, tr, w')"
    and "(c, Failed e) \<in> set tr"
    and "is_scm_call c"
  shows "out = Return (Some e) \<and> only_logs_after_scm_failure tr"
  using updateEnrollment_surfaces_scm_failure [OF assms(1,2,3)] assms(4,5)
  by (simp add: scm_failure_surfaced_def)

theorem scm_error_returned_unchanged_witness:
  "Enrollment_User (demo_enrollment Enrollment_STUDENT 0) = Some demo_user \<and>
   (case recorded_updateEnrollment (demo_Package None) demo_service ()
           (demo_SCM (Some Step_UpdateOrgMembership))
           (Some (demo_request Enrollment_TEACHER)) (Mem Enrollment_STUDENT []) of
      (out, tr, w') \<Rightarrow>
        out = Return (Some (ProviderError 502 ''Bad Gateway'')) \<and>
        only_logs_after_scm_failure tr \<and>
        map fst tr =
          [DB_GetEnrollmentByCourseAndUser 7 42,
           SCM_GetOrganization 100,
           SCM_UpdateOrgMembership
             \<lparr>OrgMembership_Organization = demo_org, OrgMembership_Username = ''ada'',
              OrgMembership_Role = ''admin''\<rparr>,
           Log_Println [Log_string ''UpdateRepoAndTeam: failed to update org membership: '',
                        Log_Error (ProviderError 502 ''Bad Gateway'')],
           Logger_Errorf
             ''UpdateEnrollment: failed to update team membersip for teacher %s: %s''
             [Log_string ''ada'', Log_Error (ProviderError 502 ''Bad Gateway'')]])"
proof -
  let ?w = "Mem Enrollment_STUDENT []"
  let ?req = "demo_request Enrollment_TEACHER"
  let ?c = "SCM_UpdateOrgMembership
             \<lparr>OrgMembership_Organization = demo_org, OrgMembership_Username = ''ada'',
              OrgMembership_Role = ''admin''\<rparr>"
  let ?tr = "[(DB_GetEnrollmentByCourseAndUser 7 42,
             Got_Enrollment (demo_enrollment Enrollment_STUDENT 0)),
          (SCM_GetOrganization 100, Got_Organization demo_org),
          (?c, Failed demo_error),
          (Log_Println [Log_string ''UpdateRepoAndTeam: failed to update org membership: '',
                        Log_Error demo_error], Done),
          (Logger_Errorf
             ''UpdateEnrollment: failed to update team membersip for teacher %s: %s''
             [Log_string ''ada'', Log_Error demo_error], Done)]"
  have h1: "GetEnrollmentByCourseAndUser (db demo_service) (Enrollment_CourseID ?req)
              (Enrollment_UserID ?req) ?w = (Inr (demo_enrollment Enrollment_STUDENT 0), ?w)"
    by (simp add: demo_service_def demo_db_def)
  have h2: "Enrollment_User (demo_enrollment Enrollment_STUDENT 0) = Some demo_user"
    by (simp add: demo_enrollment_def)
  have run: "recorded_updateEnrollment (demo_Package None) demo_service ()
               (demo_SCM (Some Step_UpdateOrgMembership)) (Some ?req) ?w
      = (Return (Some demo_error), ?tr, ?w)"
    unfolding run_defs
    by (simp add: Let_def rec_db_simps rec_simps demo_defs demo_SCM_def demo_fail_def
        demo_Package_def Enrollment_GetStatus_def Enrollment_GetUserID_def User_GetLogin_def
        reply_sum_def reply_error_def)
  have h4: "(?c, Failed demo_error) \<in> set ?tr"
    by simp
  have h5: "is_scm_call ?c"
    by simp
  from scm_error_returned_unchanged [OF h1 h2 run h4 h5] h2
  show ?thesis
    by (simp add: run demo_error_def)
qed

text \<open>
  C6 as stated fails: the returned error carries no context that identifies the failed
  step. When \<open>GetOrganization\<close> fails and when \<open>RemoveTeamMember\<close> fails, each with
  the adapter error \<^verbatim>\<open>502 Bad Gateway\<close>, the caller gets the same value, which is that
  adapter error and nothing more.
\<close>

theorem scm_error_enriched_counterexample:
  "fst (recorded_updateEnrollment (demo_Package None) demo_service ()
          (demo_SCM (Some Step_GetOrganization))
          (Some (demo_request Enrollment_TEACHER)) (Mem Enrollment_STUDENT []))
     = Return (Some (ProviderError 502 ''Bad Gateway'')) \<and>
   fst (recorded_updateEnrollment (demo_Package None) demo_service ()
          (demo_SCM (Some Step_RemoveTeamMember))
          (Some (demo_request Enrollment_TEACHER)) (Mem Enrollment_STUDENT []))
     = Return (Some (ProviderError 502 ''Bad Gateway'')) \<and>
   GetOrganization (demo_SCM (Some Step_GetOrganization)) () 100 (Mem Enrollment_STUDENT [])
     = (Inl (ProviderError 502 ''Bad Gateway''), Mem Enrollment_STUDENT [])"
  unfolding run_defs
  by (simp add: Let_def rec_db_simps rec_simps demo_defs demo_SCM_def demo_fail_def
      demo_Package_def demo_error_def Enrollment_GetStatus_def Enrollment_GetUserID_def
      User_GetLogin_def reply_sum_def reply_error_def)

section \<open>Enrollment requests and queries: the claims\<close>

text \<open>
  C8. \<open>createEnrollment\<close> makes one call, \<open>CreateEnrollment\<close>, with the user and course
  identifiers of the request and the status PENDING, and returns its result. The
  request's own status and every other field of the request play no part: a request
  that agrees on the two identifiers gives the same run, whatever its other fields.
\<close>

theorem createEnrollment_pending:
  "createEnrollment (recording_Service s) request ([], w) =
     (case CreateEnrollment (db s)
             \<lparr>Enrollment_UserID = Enrollment_GetUserID request,
              Enrollment_CourseID = Enrollment_GetCourseID request,
              Enrollment_GroupID = 0,
              Enrollment_Status = Enrollment_PENDING,
              Enrollment_User = None,
              Enrollment_Course = None\<rparr> w of
        (r, w') \<Rightarrow>
          (r,
           [(DB_CreateEnrollment
               \<lparr>Enrollment_UserID = Enrollment_GetUserID request,
                Enrollment_CourseID = Enrollment_GetCourseID request,
                Enrollment_GroupID = 0,
                Enrollment_Status = Enrollment_PENDING,
                Enrollment_User = None,
                Enrollment_Course = None\<rparr>, reply_error r)],
           w')) \<and>
   createEnrollment s' (Some req) \<sigma> =
     createEnrollment s'
       (Some \<lparr>Enrollment_UserID = Enrollment_UserID req,
              Enrollment_CourseID = Enrollment_CourseID req,
              Enrollment_GroupID = g, Enrollment_Status = st,
              Enrollment_User = u, Enrollment_Course = c\<rparr>) \<sigma>"
  by (simp add: createEnrollment_def Let_def rec_db_simps Enrollment_GetUserID_def
      Enrollment_GetCourseID_def)

theorem createEnrollment_pending_witness:
  "createEnrollment (recording_Service demo_service) (Some (demo_enrollment Enrollment_TEACHER 3))
     ([], Mem Enrollment_NONE [])
   = (None,
      [(DB_CreateEnrollment
          \<lparr>Enrollment_UserID = 42, Enrollment_CourseID = 7, Enrollment_GroupID = 0,
           Enrollment_Status = Enrollment_PENDING, Enrollment_User = None,
           Enrollment_Course = None\<rparr>, Done)],
      Mem Enrollment_NONE [])"
  using createEnrollment_pending [THEN conjunct1, of demo_service
      "Some (demo_enrollment Enrollment_TEACHER 3)" "Mem Enrollment_NONE []"]
  by (simp add: demo_service_def demo_db_def demo_enrollment_def Enrollment_GetUserID_def
      Enrollment_GetCourseID_def reply_error_def)

text \<open>
  The loop of \<open>getEnrollmentsByCourse\<close> appends, in order, the enrollments whose group
  identifier is 0.
\<close>

lemma withoutGroups_loop_filter:
  "withoutGroups_loop es acc = acc @ filter (\<lambda>e. Enrollment_GroupID e = 0) es"
  by (induction es arbitrary: acc) simp_all

text \<open>
  C9. When the store returns a list of enrollments, \<open>getEnrollmentsByCourse\<close> returns,
  with \<^verbatim>\<open>FilterOutGroupMembers\<close> set, exactly the enrollments of that list whose group
  identifier is 0, in the store's order, and otherwise the store's list unchanged.
\<close>

theorem getEnrollmentsByCourse_filter:
  assumes "GetEnrollmentsByCourse (db s) (EnrollmentsRequest_CourseID req)
             (EnrollmentsRequest_States req) \<sigma> = (Inr es, \<sigma>1)"
  shows "getEnrollmentsByCourse s (Some req) \<sigma> =
          (Return (Inr (Enrollments
             (if EnrollmentsRequest_FilterOutGroupMembers req
              then filter (\<lambda>e. Enrollment_GroupID e = 0) es else es))), \<sigma>1)"
  using assms by (simp add: getEnrollmentsByCourse_def withoutGroups_loop_filter)

theorem getEnrollmentsByCourse_filter_witness:
  "getEnrollmentsByCourse demo_service
     (Some \<lparr>EnrollmentsRequest_CourseID = 7, EnrollmentsRequest_FilterOutGroupMembers = True,
            EnrollmentsRequest_States = [Enrollment_STUDENT, Enrollment_TEACHER]\<rparr>)
     (Mem Enrollment_STUDENT [])
   = (Return (Inr (Enrollments
        [demo_enrollment Enrollment_STUDENT 0, demo_enrollment Enrollment_TEACHER 0])),
      Mem Enrollment_STUDENT [])"
proof -
  let ?req = "\<lparr>EnrollmentsRequest_CourseID = 7, EnrollmentsRequest_FilterOutGroupMembers = True,
               EnrollmentsRequest_States = [Enrollment_STUDENT, Enrollment_TEACHER]\<rparr>"
  let ?w = "Mem Enrollment_STUDENT []"
  have h: "GetEnrollmentsByCourse (db demo_service) (EnrollmentsRequest_CourseID ?req)
             (EnrollmentsRequest_States ?req) ?w
           = (Inr [demo_enrollment Enrollment_STUDENT 0, demo_enrollment Enrollment_STUDENT 3,
                   demo_enrollment Enrollment_TEACHER 0], ?w)"
    by (simp add: demo_service_def demo_db_def)
  from getEnrollmentsByCourse_filter [OF h]
  show ?thesis
    by (simp add: demo_enrollment_def)
qed



section \<open>The GitLab adapter: the claim\<close>

text \<open>
  C7, as the code has it. Each of \<open>ListDirectories\<close>, \<open>CreateDirectory\<close> and
  \<open>GetDirectory\<close> returns an error to its caller exactly when its call to the GitLab
  client returned that error: the client's error is passed on as it is, untranslated.
\<close>

theorem gitlab_errors_passed_through:
  "(fst (ListDirectories s ctx \<sigma>) = Return (Inl e)
      \<longleftrightarrow> fst (Groups_ListGroups s ctx \<sigma>) = Inl e) \<and>
   (fst (CreateDirectory s ctx (Some opt) \<sigma>) = Return (Inl e)
      \<longleftrightarrow> fst (Groups_CreateGroup s
                \<lparr>CreateGroupOptions_Name = Some (CreateDirectoryOptions_Name opt),
                 CreateGroupOptions_Path = Some (CreateDirectoryOptions_Name opt),
                 CreateGroupOptions_VisibilityLevel = Some PublicVisibility\<rparr> ctx \<sigma>) = Inl e) \<and>
   (fst (GetDirectory s ctx gid \<sigma>) = Return (Inl e)
      \<longleftrightarrow> fst (Groups_GetGroup s gid ctx \<sigma>) = Inl e)"
  by (simp add: ListDirectories_def CreateDirectory_def GetDirectory_def getVisibilityLevel_def
      split: prod.split sum.split)

text \<open>
  C7 as stated fails: with a client that answers \<^verbatim>\<open>401\<close>, \<^verbatim>\<open>409\<close> and \<^verbatim>\<open>404\<close>, the
  three methods return the client's own error responses - a not-found and a conflict
  response among them - and not errors of a shared taxonomy.
\<close>

theorem gitlab_raw_error_counterexample:
  "fst (ListDirectories demo_gitlab () ()) = Return (Inl (ProviderError 401 ''401 Unauthorized'')) \<and>
   fst (CreateDirectory demo_gitlab () (Some \<lparr>CreateDirectoryOptions_Name = ''course-7''\<rparr>) ())
     = Return (Inl (ProviderError 409 ''409 Conflict: path has already been taken'')) \<and>
   fst (GetDirectory demo_gitlab () 5 ()) = Return (Inl (ProviderError 404 ''404 Group Not Found'')) \<and>
   is_ProviderError (ProviderError 404 ''404 Group Not Found'')"
  by (simp add: ListDirectories_def CreateDirectory_def GetDirectory_def demo_gitlab_def)


end
